theory Spec2Isabelle
  imports Complex_Main "HOL-Library.List_Lexorder"
begin

section \<open>Python values\<close>

text \<open>
  A Python \<open>str\<close> is a sequence of Unicode code points, so it is a list of naturals
  (the currency symbols of the extractor do not fit in HOL's 8-bit \<open>char\<close>).
  \<open>ascii\<close> turns an ASCII literal of the source into such a string.

  A Python \<open>float\<close> is modelled as a real number: arithmetic and comparison are exact,
  the rounding of IEEE doubles and the non-finite values are not represented.
\<close>

type_synonym pystr = "nat list"

definition ascii :: "string \<Rightarrow> pystr" where
  "ascii s = map of_char s"

datatype pyerror = TypeError | ValueError | IndexError

text \<open>Truthiness of an optional string: \<open>None\<close> and \<open>''\<close> are falsy.\<close>

fun truthy :: "pystr option \<Rightarrow> bool" where
  "truthy None = False"
| "truthy (Some s) = (s \<noteq> [])"

text \<open>\<open>a or d\<close> for an optional string \<open>a\<close> and a string \<open>d\<close>\<close>

definition or_default :: "pystr option \<Rightarrow> pystr \<Rightarrow> pystr" where
  "or_default a d = (case a of None \<Rightarrow> d | Some s \<Rightarrow> if s \<noteq> [] then s else d)"

text \<open>An optional string inside an f-string: \<open>None\<close> prints as \<open>None\<close>.\<close>

fun fmt_opt :: "pystr option \<Rightarrow> pystr" where
  "fmt_opt None = ascii ''None''"
| "fmt_opt (Some s) = s"

text \<open>\<open>sep.join(xs)\<close> on strings\<close>

fun join :: "pystr \<Rightarrow> pystr list \<Rightarrow> pystr" where
  "join sep [] = []"
| "join sep [x] = x"
| "join sep (x # y # ys) = x @ sep @ join sep (y # ys)"

text \<open>\<open>sep.join(xs)\<close> raises \<open>TypeError\<close> when an item is \<open>None\<close>.\<close>

definition join_opt :: "pystr \<Rightarrow> pystr option list \<Rightarrow> pyerror + pystr" where
  "join_opt sep xs =
     (if None \<in> set xs then Inl TypeError else Inr (join sep (map the xs)))"

text \<open>
  \<open>s.split(c)\<close> for a one-character separator. The result of \<open>split\<close> is never
  empty: it is returned as its first piece and the list of the others, so that \<open>[0]\<close> is
  the first component.
\<close>

fun py_split :: "nat \<Rightarrow> pystr \<Rightarrow> pystr \<times> pystr list" where
  "py_split c [] = ([], [])"
| "py_split c (x # xs) =
     (case py_split c xs of
        (p, ps) \<Rightarrow> if x = c then ([], p # ps) else (x # p, ps))"

text \<open>\<open>needle in haystack\<close> on strings\<close>

fun is_prefix :: "pystr \<Rightarrow> pystr \<Rightarrow> bool" where
  "is_prefix [] ys = True"
| "is_prefix (x # xs) [] = False"
| "is_prefix (x # xs) (y # ys) = (x = y \<and> is_prefix xs ys)"

fun contains :: "pystr \<Rightarrow> pystr \<Rightarrow> bool" where
  "contains needle [] = (needle = [])"
| "contains needle (c # cs) = (is_prefix needle (c # cs) \<or> contains needle cs)"

text \<open>\<open>s.replace(c, '')\<close> for a one-character \<open>c\<close>\<close>

definition remove_char :: "nat \<Rightarrow> pystr \<Rightarrow> pystr" where
  "remove_char c s = filter (\<lambda>x. x \<noteq> c) s"

section \<open>The standard library\<close>

text \<open>
  What the code takes from Python's standard library and Unicode tables is a parameter of
  the model: every theorem holds for any behaviour of these functions. \<open>'d\<close> is the type
  of \<open>datetime\<close> values.
\<close>

record 'd pylib =
  isspace :: "nat \<Rightarrow> bool"
  isword :: "nat \<Rightarrow> bool"
  lower :: "pystr \<Rightarrow> pystr"
  float_of_str :: "pystr \<Rightarrow> pyerror + real"
  float_repr :: "real \<Rightarrow> pystr"
  fromisoformat :: "pystr \<Rightarrow> pyerror + 'd"
  strptime :: "pystr \<Rightarrow> pystr \<Rightarrow> pyerror + 'd"
  strftime :: "'d \<Rightarrow> pystr \<Rightarrow> pyerror + pystr"
  dt_year :: "'d \<Rightarrow> int"
  dt_less :: "'d \<Rightarrow> 'd \<Rightarrow> pyerror + bool"

text \<open>\<open>s.strip()\<close>, for a given class of whitespace\<close>

definition strip_with :: "(nat \<Rightarrow> bool) \<Rightarrow> pystr \<Rightarrow> pystr" where
  "strip_with sp s = rev (dropWhile sp (rev (dropWhile sp s)))"

definition strip :: "'d pylib \<Rightarrow> pystr \<Rightarrow> pystr" where
  "strip lib s = strip_with (isspace lib) s"

section \<open>models.py\<close>

record LineItem =
  description :: "pystr option"
  quantity :: "real option"
  unit_price :: "real option"
  line_total :: "real option"

record Invoice =
  invoice_number :: "pystr option"
  external_reference :: "pystr option"
  invoice_date :: "pystr option"
  due_date :: "pystr option"
  seller_name :: "pystr option"
  seller_address :: "pystr option"
  seller_tax_id :: "pystr option"
  buyer_name :: "pystr option"
  buyer_address :: "pystr option"
  buyer_tax_id :: "pystr option"
  currency :: "pystr option"
  net_total :: "real option"
  tax_amount :: "real option"
  gross_total :: "real option"
  payment_terms :: "pystr option"
  line_items :: "LineItem list"
  source_file :: "pystr option"

record ValidationError =
  rule :: pystr
  message :: pystr
  field :: "pystr option"

record InvoiceValidationResult =
  invoice_id :: pystr
  is_valid :: bool
  errors :: "ValidationError list"
  warnings :: "ValidationError list"

record ValidationSummary =
  total_invoices :: int
  valid_invoices :: int
  invalid_invoices :: int
  error_counts :: "pystr \<rightharpoonup> int"
  warning_counts :: "pystr \<rightharpoonup> int"

record ValidationReport =
  summary :: ValidationSummary
  results :: "InvoiceValidationResult list"

text \<open>The default-constructed invoice \<open>Invoice()\<close> and line item \<open>LineItem()\<close>\<close>

definition Invoice_default :: Invoice where
  "Invoice_default = \<lparr>invoice_number = None, external_reference = None,
     invoice_date = None, due_date = None, seller_name = None, seller_address = None,
     seller_tax_id = None, buyer_name = None, buyer_address = None, buyer_tax_id = None,
     currency = None, net_total = None, tax_amount = None, gross_total = None,
     payment_terms = None, line_items = [], source_file = None\<rparr>"

definition LineItem_default :: LineItem where
  "LineItem_default = \<lparr>description = None, quantity = None, unit_price = None,
     line_total = None\<rparr>"

text \<open>\<open>getattr(invoice, field, None)\<close>: the value of a field by its name\<close>

datatype field_value = StrVal pystr | FloatVal real | ItemsVal "LineItem list"

definition getattr :: "Invoice \<Rightarrow> pystr \<Rightarrow> field_value option" where
  "getattr invoice f =
    (if f = ascii ''invoice_number'' then map_option StrVal (invoice_number invoice)
     else if f = ascii ''external_reference'' then map_option StrVal (external_reference invoice)
     else if f = ascii ''invoice_date'' then map_option StrVal (invoice_date invoice)
     else if f = ascii ''due_date'' then map_option StrVal (due_date invoice)
     else if f = ascii ''seller_name'' then map_option StrVal (seller_name invoice)
     else if f = ascii ''seller_address'' then map_option StrVal (seller_address invoice)
     else if f = ascii ''seller_tax_id'' then map_option StrVal (seller_tax_id invoice)
     else if f = ascii ''buyer_name'' then map_option StrVal (buyer_name invoice)
     else if f = ascii ''buyer_address'' then map_option StrVal (buyer_address invoice)
     else if f = ascii ''buyer_tax_id'' then map_option StrVal (buyer_tax_id invoice)
     else if f = ascii ''currency'' then map_option StrVal (currency invoice)
     else if f = ascii ''net_total'' then map_option FloatVal (net_total invoice)
     else if f = ascii ''tax_amount'' then map_option FloatVal (tax_amount invoice)
     else if f = ascii ''gross_total'' then map_option FloatVal (gross_total invoice)
     else if f = ascii ''payment_terms'' then map_option StrVal (payment_terms invoice)
     else if f = ascii ''line_items'' then Some (ItemsVal (line_items invoice))
     else if f = ascii ''source_file'' then map_option StrVal (source_file invoice)
     else None)"

section \<open>Formatting numbers\<close>

text \<open>The decimal digits of a natural number\<close>

function str_nat :: "nat \<Rightarrow> pystr" where
  "str_nat n = (if n < 10 then [48 + n] else str_nat (n div 10) @ [48 + n mod 10])"
  by pat_completeness auto
termination
  by (relation "measure id") auto

text \<open>Rounding to the nearest integer, ties to even\<close>

definition round_half_even :: "real \<Rightarrow> int" where
  "round_half_even y =
     (let f = \<lfloor>y\<rfloor>; r = y - of_int f
      in if r < 1 / 2 then f
         else if 1 / 2 < r then f + 1
         else if even f then f else f + 1)"

text \<open>
  The format specification \<open>:.2f\<close>: the value correctly rounded to two decimals, with a
  minus sign for a negative value.
\<close>

definition format_2f :: "real \<Rightarrow> pystr" where
  "format_2f x =
     (let q = nat (round_half_even (\<bar>x\<bar> * 100))
      in (if x < 0 then ascii ''-'' else [])
         @ str_nat (q div 100) @ ascii ''.''
         @ [48 + (q mod 100) div 10, 48 + q mod 10])"

section \<open>rules.py\<close>

text \<open>
  A rule object: its name, description and severity, and its \<open>validate\<close> method, which
  returns the findings or raises.
\<close>

record ValidationRule =
  name :: pystr
  rule_description :: pystr
  severity :: pystr
  validate :: "Invoice \<Rightarrow> Invoice list option \<Rightarrow> pyerror + ValidationError list"

definition apostrophe :: pystr where
  "apostrophe = [39]"

subsection \<open>RequiredFieldRule\<close>

definition required_fields :: "pystr list" where
  "required_fields = [ascii ''invoice_number'', ascii ''invoice_date'',
     ascii ''seller_name'', ascii ''buyer_name'', ascii ''currency'', ascii ''gross_total'']"

text \<open>\<open>value is None or (isinstance(value, str) and not value.strip())\<close>\<close>

fun missing_or_empty :: "'d pylib \<Rightarrow> field_value option \<Rightarrow> bool" where
  "missing_or_empty lib None = True"
| "missing_or_empty lib (Some (StrVal s)) = (strip lib s = [])"
| "missing_or_empty lib (Some v) = False"

definition RequiredFieldRule_validate ::
  "'d pylib \<Rightarrow> Invoice \<Rightarrow> Invoice list option \<Rightarrow> ValidationError list" where
  "RequiredFieldRule_validate lib invoice all_invoices =
     concat (map (\<lambda>f.
       if missing_or_empty lib (getattr invoice f)
       then [\<lparr>rule = ascii ''required_fields'',
              message = ascii ''Required field '' @ apostrophe @ f @ apostrophe
                        @ ascii '' is missing or empty'',
              field = Some f\<rparr>]
       else []) required_fields)"

subsection \<open>DateFormatRule\<close>

definition is_valid_date :: "'d pylib \<Rightarrow> pystr \<Rightarrow> bool" where
  "is_valid_date lib date_str =
     (case fromisoformat lib date_str of
        Inl e \<Rightarrow> False
      | Inr dt \<Rightarrow> 1900 \<le> dt_year lib dt \<and> dt_year lib dt \<le> 2100)"

definition DateFormatRule_validate ::
  "'d pylib \<Rightarrow> Invoice \<Rightarrow> Invoice list option \<Rightarrow> ValidationError list" where
  "DateFormatRule_validate lib invoice all_invoices =
     (if truthy (invoice_date invoice)
           \<and> \<not> is_valid_date lib (fmt_opt (invoice_date invoice))
      then [\<lparr>rule = ascii ''date_format'',
             message = ascii ''Invalid invoice_date format: '' @ fmt_opt (invoice_date invoice),
             field = Some (ascii ''invoice_date'')\<rparr>]
      else [])
     @ (if truthy (due_date invoice) \<and> \<not> is_valid_date lib (fmt_opt (due_date invoice))
        then [\<lparr>rule = ascii ''date_format'',
               message = ascii ''Invalid due_date format: '' @ fmt_opt (due_date invoice),
               field = Some (ascii ''due_date'')\<rparr>]
        else [])"

subsection \<open>CurrencyValidationRule\<close>

definition VALID_CURRENCIES :: "pystr set" where
  "VALID_CURRENCIES = set (map ascii [''EUR'', ''USD'', ''GBP'', ''INR'', ''JPY'',
     ''CNY'', ''CAD'', ''AUD'', ''CHF'', ''SEK''])"

definition CurrencyValidationRule_validate ::
  "Invoice \<Rightarrow> Invoice list option \<Rightarrow> ValidationError list" where
  "CurrencyValidationRule_validate invoice all_invoices =
     (if truthy (currency invoice) \<and> fmt_opt (currency invoice) \<notin> VALID_CURRENCIES
      then [\<lparr>rule = ascii ''currency_validation'',
             message = ascii ''Unknown currency code: '' @ fmt_opt (currency invoice)
                       @ ascii ''. Valid: ''
                       @ join (ascii '', '') (sorted_list_of_set VALID_CURRENCIES),
             field = Some (ascii ''currency'')\<rparr>]
      else [])"

subsection \<open>DueDateRule\<close>

text \<open>The body of the \<open>try\<close>: any exception ends it with no finding.\<close>

definition DueDateRule_validate ::
  "'d pylib \<Rightarrow> Invoice \<Rightarrow> Invoice list option \<Rightarrow> ValidationError list" where
  "DueDateRule_validate lib invoice all_invoices =
     (if truthy (invoice_date invoice) \<and> truthy (due_date invoice)
      then (case fromisoformat lib (fmt_opt (invoice_date invoice)) of
              Inl e \<Rightarrow> []
            | Inr invoice_dt \<Rightarrow>
               (case fromisoformat lib (fmt_opt (due_date invoice)) of
                  Inl e \<Rightarrow> []
                | Inr due_dt \<Rightarrow>
                   (case dt_less lib due_dt invoice_dt of
                      Inl e \<Rightarrow> []
                    | Inr b \<Rightarrow>
                       if b
                       then [\<lparr>rule = ascii ''due_date_logic'',
                              message = ascii ''Due date ('' @ fmt_opt (due_date invoice)
                                @ ascii '') is before invoice date (''
                                @ fmt_opt (invoice_date invoice) @ ascii '')'',
                              field = Some (ascii ''due_date'')\<rparr>]
                       else [])))
      else [])"

subsection \<open>TotalsMatchRule\<close>

definition TotalsMatchRule_validate ::
  "'d pylib \<Rightarrow> real \<Rightarrow> Invoice \<Rightarrow> Invoice list option \<Rightarrow> ValidationError list" where
  "TotalsMatchRule_validate lib tolerance invoice all_invoices =
     (case (net_total invoice, tax_amount invoice, gross_total invoice) of
        (Some net, Some tax, Some gross) \<Rightarrow>
          (let calculated_total = net + tax;
               difference = \<bar>calculated_total - gross\<bar>
           in if tolerance < difference
              then [\<lparr>rule = ascii ''totals_match'',
                     message = ascii ''Totals mismatch: '' @ float_repr lib net
                       @ ascii '' + '' @ float_repr lib tax
                       @ ascii '' = '' @ float_repr lib calculated_total
                       @ ascii '', but gross_total is '' @ float_repr lib gross
                       @ ascii '' (diff: '' @ format_2f difference @ ascii '')'',
                     field = Some (ascii ''gross_total'')\<rparr>]
              else [])
      | _ \<Rightarrow> [])"

subsection \<open>LineItemsTotalRule\<close>

text \<open>\<open>sum(item.line_total for item in invoice.line_items if item.line_total is not None)\<close>\<close>

definition line_items_sum :: "LineItem list \<Rightarrow> real" where
  "line_items_sum items = sum_list (List.map_filter line_total items)"

definition LineItemsTotalRule_validate ::
  "real \<Rightarrow> Invoice \<Rightarrow> Invoice list option \<Rightarrow> ValidationError list" where
  "LineItemsTotalRule_validate tolerance invoice all_invoices =
     (case net_total invoice of
        None \<Rightarrow> []
      | Some net \<Rightarrow>
          if line_items invoice = [] then []
          else if 0 < line_items_sum (line_items invoice)
          then (let difference = \<bar>line_items_sum (line_items invoice) - net\<bar>
                in if tolerance < difference
                   then [\<lparr>rule = ascii ''line_items_total'',
                          message = ascii ''Line items sum (''
                            @ format_2f (line_items_sum (line_items invoice))
                            @ ascii '') doesn'' @ apostrophe @ ascii ''t match net_total (''
                            @ format_2f net @ ascii ''), diff: '' @ format_2f difference,
                          field = Some (ascii ''line_items'')\<rparr>]
                   else [])
          else [])"

subsection \<open>NegativeAmountsRule\<close>

definition amount_fields :: "pystr list" where
  "amount_fields = [ascii ''net_total'', ascii ''tax_amount'', ascii ''gross_total'']"

text \<open>\<open>value is not None and value < 0\<close>, for the amount fields, which hold floats\<close>

fun is_negative :: "field_value option \<Rightarrow> bool" where
  "is_negative (Some (FloatVal v)) = (v < 0)"
| "is_negative _ = False"

fun repr_value :: "'d pylib \<Rightarrow> field_value option \<Rightarrow> pystr" where
  "repr_value lib (Some (FloatVal v)) = float_repr lib v"
| "repr_value lib (Some (StrVal s)) = s"
| "repr_value lib _ = ascii ''None''"

definition NegativeAmountsRule_validate ::
  "'d pylib \<Rightarrow> Invoice \<Rightarrow> Invoice list option \<Rightarrow> ValidationError list" where
  "NegativeAmountsRule_validate lib invoice all_invoices =
     concat (map (\<lambda>f.
       if is_negative (getattr invoice f)
       then [\<lparr>rule = ascii ''no_negative_amounts'',
              message = ascii ''Field '' @ apostrophe @ f @ apostrophe
                        @ ascii '' has negative value: ''
                        @ repr_value lib (getattr invoice f),
              field = Some f\<rparr>]
       else []) amount_fields)"

subsection \<open>DuplicateInvoiceRule\<close>

text \<open>
  The invoices of the batch with the same number, seller and date as \<open>invoice\<close> and
  another source file
\<close>

definition duplicates :: "Invoice \<Rightarrow> Invoice list \<Rightarrow> Invoice list" where
  "duplicates invoice all_invoices =
     filter (\<lambda>i. invoice_number i = invoice_number invoice
                \<and> seller_name i = seller_name invoice
                \<and> invoice_date i = invoice_date invoice
                \<and> source_file i \<noteq> source_file invoice) all_invoices"

text \<open>
  \<open>', '.join(dup_files)\<close> is evaluated inside the message and raises \<open>TypeError\<close> when a
  duplicate has no source file.
\<close>

definition DuplicateInvoiceRule_validate ::
  "Invoice \<Rightarrow> Invoice list option \<Rightarrow> pyerror + ValidationError list" where
  "DuplicateInvoiceRule_validate invoice all_invoices =
     (case all_invoices of
        None \<Rightarrow> Inr []
      | Some batch \<Rightarrow>
          if batch = [] \<or> \<not> truthy (invoice_number invoice) then Inr []
          else if duplicates invoice batch \<noteq> []
          then (case join_opt (ascii '', '') (map source_file (duplicates invoice batch)) of
                  Inl e \<Rightarrow> Inl e
                | Inr files \<Rightarrow>
                    Inr [\<lparr>rule = ascii ''no_duplicates'',
                          message = ascii ''Duplicate invoice detected. Same invoice_number (''
                            @ fmt_opt (invoice_number invoice) @ ascii '') from ''
                            @ fmt_opt (seller_name invoice) @ ascii '' on ''
                            @ fmt_opt (invoice_date invoice) @ ascii ''. Duplicates in: ''
                            @ files,
                          field = Some (ascii ''invoice_number'')\<rparr>])
          else Inr [])"

subsection \<open>The rule objects and ALL_RULES\<close>

definition RequiredFieldRule :: "'d pylib \<Rightarrow> ValidationRule" where
  "RequiredFieldRule lib = \<lparr>name = ascii ''required_fields'',
     rule_description = ascii ''Core invoice fields must be present and non-empty'',
     severity = ascii ''error'',
     validate = (\<lambda>i a. Inr (RequiredFieldRule_validate lib i a))\<rparr>"

definition DateFormatRule :: "'d pylib \<Rightarrow> ValidationRule" where
  "DateFormatRule lib = \<lparr>name = ascii ''date_format'',
     rule_description =
       ascii ''Dates must be parseable and within reasonable range (1900-2100)'',
     severity = ascii ''error'',
     validate = (\<lambda>i a. Inr (DateFormatRule_validate lib i a))\<rparr>"

definition CurrencyValidationRule :: ValidationRule where
  "CurrencyValidationRule = \<lparr>name = ascii ''currency_validation'',
     rule_description = ascii ''Currency must be a recognized ISO code'',
     severity = ascii ''error'',
     validate = (\<lambda>i a. Inr (CurrencyValidationRule_validate i a))\<rparr>"

definition DueDateRule :: "'d pylib \<Rightarrow> ValidationRule" where
  "DueDateRule lib = \<lparr>name = ascii ''due_date_logic'',
     rule_description = ascii ''Due date must be on or after invoice date'',
     severity = ascii ''error'',
     validate = (\<lambda>i a. Inr (DueDateRule_validate lib i a))\<rparr>"

definition TotalsMatchRule :: "'d pylib \<Rightarrow> real \<Rightarrow> ValidationRule" where
  "TotalsMatchRule lib tolerance = \<lparr>name = ascii ''totals_match'',
     rule_description =
       ascii ''Net total + tax amount should equal gross total (within tolerance)'',
     severity = ascii ''error'',
     validate = (\<lambda>i a. Inr (TotalsMatchRule_validate lib tolerance i a))\<rparr>"

definition LineItemsTotalRule :: "real \<Rightarrow> ValidationRule" where
  "LineItemsTotalRule tolerance = \<lparr>name = ascii ''line_items_total'',
     rule_description = ascii ''Sum of line item totals should match net total'',
     severity = ascii ''warning'',
     validate = (\<lambda>i a. Inr (LineItemsTotalRule_validate tolerance i a))\<rparr>"

definition NegativeAmountsRule :: "'d pylib \<Rightarrow> ValidationRule" where
  "NegativeAmountsRule lib = \<lparr>name = ascii ''no_negative_amounts'',
     rule_description = ascii ''Invoice amounts should not be negative'',
     severity = ascii ''error'',
     validate = (\<lambda>i a. Inr (NegativeAmountsRule_validate lib i a))\<rparr>"

definition DuplicateInvoiceRule :: ValidationRule where
  "DuplicateInvoiceRule = \<lparr>name = ascii ''no_duplicates'',
     rule_description = ascii
       ''Invoices should not have duplicate invoice numbers from same seller on same date'',
     severity = ascii ''error'',
     validate = DuplicateInvoiceRule_validate\<rparr>"

text \<open>The default tolerance of both reconciliation rules\<close>

definition default_tolerance :: real where
  "default_tolerance = 2 / 100"

definition ALL_RULES :: "'d pylib \<Rightarrow> ValidationRule list" where
  "ALL_RULES lib = [RequiredFieldRule lib, DateFormatRule lib, CurrencyValidationRule,
     DueDateRule lib, TotalsMatchRule lib default_tolerance,
     LineItemsTotalRule default_tolerance, NegativeAmountsRule lib, DuplicateInvoiceRule]"

section \<open>validator.py\<close>

text \<open>\<open>self.rules = rules or ALL_RULES\<close>: no list and the empty list give the default.\<close>

definition InvoiceValidator_rules ::
  "'d pylib \<Rightarrow> ValidationRule list option \<Rightarrow> ValidationRule list" where
  "InvoiceValidator_rules lib rules =
     (case rules of None \<Rightarrow> ALL_RULES lib
      | Some rs \<Rightarrow> if rs = [] then ALL_RULES lib else rs)"

text \<open>The inner loop: the findings of one rule go to one list, chosen by its severity.\<close>

fun route_findings ::
  "pystr \<Rightarrow> ValidationError list \<Rightarrow> ValidationError list \<times> ValidationError list
     \<Rightarrow> ValidationError list \<times> ValidationError list" where
  "route_findings sev [] (errs, warns) = (errs, warns)"
| "route_findings sev (e # es) (errs, warns) =
     (if sev = ascii ''warning'' then route_findings sev es (errs, warns @ [e])
      else route_findings sev es (errs @ [e], warns))"

text \<open>The outer loop over the rules; a rule that raises ends the validation.\<close>

fun apply_rules ::
  "ValidationRule list \<Rightarrow> Invoice \<Rightarrow> Invoice list option
     \<Rightarrow> ValidationError list \<times> ValidationError list
     \<Rightarrow> pyerror + ValidationError list \<times> ValidationError list" where
  "apply_rules [] invoice all_invoices acc = Inr acc"
| "apply_rules (r # rs) invoice all_invoices acc =
     (case validate r invoice all_invoices of
        Inl e \<Rightarrow> Inl e
      | Inr rule_errors \<Rightarrow>
          apply_rules rs invoice all_invoices (route_findings (severity r) rule_errors acc))"

definition validate_invoice ::
  "ValidationRule list \<Rightarrow> Invoice \<Rightarrow> Invoice list option
     \<Rightarrow> pyerror + InvoiceValidationResult" where
  "validate_invoice rules invoice all_invoices =
     (case apply_rules rules invoice all_invoices ([], []) of
        Inl e \<Rightarrow> Inl e
      | Inr (errs, warns) \<Rightarrow>
          Inr \<lparr>invoice_id = or_default (invoice_number invoice)
                  (or_default (source_file invoice) (ascii ''unknown'')),
               is_valid = (length errs = 0),
               errors = errs,
               warnings = warns\<rparr>)"

text \<open>\<open>_generate_summary\<close>\<close>

definition count_key :: "ValidationError \<Rightarrow> pystr" where
  "count_key e = rule e @ ascii '': '' @ fst (py_split 46 (message e))"

text \<open>\<open>counts[key] = counts.get(key, 0) + 1\<close> for every finding of a list\<close>

fun count_findings :: "ValidationError list \<Rightarrow> (pystr \<rightharpoonup> int) \<Rightarrow> (pystr \<rightharpoonup> int)" where
  "count_findings [] counts = counts"
| "count_findings (e # es) counts =
     count_findings es
       (counts(count_key e \<mapsto> (case counts (count_key e) of None \<Rightarrow> 0 | Some n \<Rightarrow> n) + 1))"

fun count_results ::
  "InvoiceValidationResult list \<Rightarrow> (pystr \<rightharpoonup> int) \<times> (pystr \<rightharpoonup> int)
     \<Rightarrow> (pystr \<rightharpoonup> int) \<times> (pystr \<rightharpoonup> int)" where
  "count_results [] (ec, wc) = (ec, wc)"
| "count_results (r # rs) (ec, wc) =
     count_results rs (count_findings (errors r) ec, count_findings (warnings r) wc)"

definition generate_summary :: "InvoiceValidationResult list \<Rightarrow> ValidationSummary" where
  "generate_summary rs =
     (let total = int (length rs);
          valid = int (length (filter is_valid rs));
          invalid = total - valid
      in case count_results rs (Map.empty, Map.empty) of
           (ec, wc) \<Rightarrow>
             \<lparr>total_invoices = total, valid_invoices = valid, invalid_invoices = invalid,
              error_counts = ec, warning_counts = wc\<rparr>)"

text \<open>\<open>validate_invoices\<close>: every invoice is validated against the whole batch.\<close>

fun validate_each ::
  "ValidationRule list \<Rightarrow> Invoice list \<Rightarrow> Invoice list
     \<Rightarrow> pyerror + InvoiceValidationResult list" where
  "validate_each rules [] batch = Inr []"
| "validate_each rules (i # is) batch =
     (case validate_invoice rules i (Some batch) of
        Inl e \<Rightarrow> Inl e
      | Inr r \<Rightarrow>
          (case validate_each rules is batch of
             Inl e \<Rightarrow> Inl e
           | Inr rs \<Rightarrow> Inr (r # rs)))"

definition validate_invoices ::
  "ValidationRule list \<Rightarrow> Invoice list \<Rightarrow> pyerror + ValidationReport" where
  "validate_invoices rules invoices =
     (case validate_each rules invoices invoices of
        Inl e \<Rightarrow> Inl e
      | Inr rs \<Rightarrow> Inr \<lparr>summary = generate_summary rs, results = rs\<rparr>)"

section \<open>extractor.py\<close>

subsection \<open>Amounts\<close>

definition comma :: nat where
  "comma = of_char (CHR '','')"

text \<open>
  \<open>_parse_amount\<close>: \<open>float\<close> of the string without commas and outer white space, and
  \<open>0.0\<close> when \<open>float\<close> raises.
\<close>

definition parse_amount :: "'d pylib \<Rightarrow> pystr \<Rightarrow> real" where
  "parse_amount lib amount_str =
     (let cleaned = strip lib (remove_char comma amount_str)
      in case float_of_str lib cleaned of
           Inl e \<Rightarrow> 0
         | Inr v \<Rightarrow> v)"

subsection \<open>Dates\<close>

definition date_formats :: "pystr list" where
  "date_formats = map ascii [''%d/%m/%Y'', ''%m/%d/%Y'', ''%Y-%m-%d'',
     ''%d-%m-%Y'', ''%d.%m.%Y'', ''%d %B %Y'', ''%d %b %Y'']"

text \<open>
  The loop of \<open>_normalize_date\<close>: the first format for which \<open>strptime\<close> and
  \<open>strftime\<close> both return gives the result; an exception of either moves to the next.
\<close>

fun try_formats :: "'d pylib \<Rightarrow> pystr \<Rightarrow> pystr list \<Rightarrow> pystr option" where
  "try_formats lib date_str [] = None"
| "try_formats lib date_str (fmt # fmts) =
     (case strptime lib (strip lib date_str) fmt of
        Inl e \<Rightarrow> try_formats lib date_str fmts
      | Inr dt \<Rightarrow>
          (case strftime lib dt (ascii ''%Y-%m-%d'') of
             Inl e \<Rightarrow> try_formats lib date_str fmts
           | Inr out \<Rightarrow> Some out))"

definition normalize_date :: "'d pylib \<Rightarrow> pystr \<Rightarrow> pystr" where
  "normalize_date lib date_str =
     (case try_formats lib date_str date_formats of
        Some out \<Rightarrow> out
      | None \<Rightarrow> date_str)"

text \<open>
  One round of the loop of \<open>_normalize_date\<close>: what a format makes of the string, if
  it parses it.
\<close>

definition render_with :: "'d pylib \<Rightarrow> pystr \<Rightarrow> pystr \<Rightarrow> pystr option" where
  "render_with lib date_str fmt =
     (case strptime lib (strip lib date_str) fmt of
        Inl e \<Rightarrow> None
      | Inr dt \<Rightarrow>
          (case strftime lib dt (ascii ''%Y-%m-%d'') of
             Inl e \<Rightarrow> None
           | Inr out \<Rightarrow> Some out))"

subsection \<open>Currency\<close>

text \<open>
  \<open>CURRENCY_PATTERNS\<close>. The first is \<open>\b(USD|EUR|GBP|INR|JPY|CNY|CAD|AUD)\b\<close>: one of
  eight codes between two word boundaries. The second is one of four symbols.
\<close>

definition CURRENCY_CODES :: "pystr list" where
  "CURRENCY_CODES = map ascii [''USD'', ''EUR'', ''GBP'', ''INR'', ''JPY'', ''CNY'',
     ''CAD'', ''AUD'']"

definition euro :: nat where "euro = 8364"
definition dollar :: nat where "dollar = of_char (CHR ''$'')"
definition pound :: nat where "pound = 163"
definition yen :: nat where "yen = 165"

definition CURRENCY_SYMBOLS :: "nat list" where
  "CURRENCY_SYMBOLS = [euro, dollar, pound, yen]"

definition currency_map :: "(pystr \<times> pystr) list" where
  "currency_map = [([euro], ascii ''EUR''), ([dollar], ascii ''USD''),
     ([pound], ascii ''GBP''), ([yen], ascii ''JPY'')]"

text \<open>
  \<open>\b\<close> at position \<open>i\<close> of \<open>s\<close>: exactly one of the characters before and after the
  position is a word character; beyond either end there is none.
\<close>

definition word_boundary :: "'d pylib \<Rightarrow> pystr \<Rightarrow> nat \<Rightarrow> bool" where
  "word_boundary lib s i =
     ((0 < i \<and> i \<le> length s \<and> isword lib (s ! (i - 1)))
        \<noteq> (i < length s \<and> isword lib (s ! i)))"

text \<open>The first pattern at position \<open>i\<close>: the first alternative that matches there\<close>

definition match_code_at :: "'d pylib \<Rightarrow> pystr \<Rightarrow> nat \<Rightarrow> pystr option" where
  "match_code_at lib s i =
     (if word_boundary lib s i
      then List.find (\<lambda>c. is_prefix c (drop i s) \<and> word_boundary lib s (i + length c))
             CURRENCY_CODES
      else None)"

text \<open>\<open>re.search\<close>: the match at the leftmost position that has one\<close>

fun first_match :: "(nat \<Rightarrow> pystr option) \<Rightarrow> nat list \<Rightarrow> pystr option" where
  "first_match m [] = None"
| "first_match m (i # is) = (case m i of Some g \<Rightarrow> Some g | None \<Rightarrow> first_match m is)"

definition search_code :: "'d pylib \<Rightarrow> pystr \<Rightarrow> pystr option" where
  "search_code lib s = first_match (match_code_at lib s) [0 ..< Suc (length s)]"

definition search_symbol :: "pystr \<Rightarrow> pystr option" where
  "search_symbol s = map_option (\<lambda>c. [c]) (List.find (\<lambda>c. c \<in> set CURRENCY_SYMBOLS) s)"

text \<open>
  The loop of \<open>_extract_currency\<close> over the searches of the two patterns: group 1 of the
  first match, replaced by its entry in \<open>currency_map\<close> when it has one.
\<close>

fun first_currency :: "(pystr \<Rightarrow> pystr option) list \<Rightarrow> pystr \<Rightarrow> pystr option" where
  "first_currency [] text = None"
| "first_currency (search # searches) text =
     (case search text of
        None \<Rightarrow> first_currency searches text
      | Some cur \<Rightarrow>
          (case map_of currency_map cur of
             Some code \<Rightarrow> Some code
           | None \<Rightarrow> Some cur))"

definition extract_currency :: "'d pylib \<Rightarrow> pystr \<Rightarrow> pystr option" where
  "extract_currency lib text = first_currency [search_code lib, search_symbol] text"

text \<open>
  A currency code stands at position \<open>i\<close> of the text as a whole word: it is one of the
  eight codes of the pattern, the text continues with it at \<open>i\<close>, and there is a word
  boundary before and after it.
\<close>

definition code_at :: "'d pylib \<Rightarrow> pystr \<Rightarrow> nat \<Rightarrow> pystr \<Rightarrow> bool" where
  "code_at lib text i c =
     (c \<in> set CURRENCY_CODES \<and> word_boundary lib text i \<and> is_prefix c (drop i text)
      \<and> word_boundary lib text (i + length c))"

text \<open>The code that \<open>currency_map\<close> gives for a symbol\<close>

definition symbol_code :: "nat \<Rightarrow> pystr" where
  "symbol_code x =
     (if x = euro then ascii ''EUR'' else if x = dollar then ascii ''USD''
      else if x = pound then ascii ''GBP'' else ascii ''JPY'')"

subsection \<open>Line items\<close>

text \<open>\<open>xs[i]\<close> for an index that is not negative\<close>

definition py_index :: "'a list \<Rightarrow> nat \<Rightarrow> pyerror + 'a" where
  "py_index xs i = (if i < length xs then Inr (xs ! i) else Inl IndexError)"

definition is_description_col :: "pystr \<Rightarrow> bool" where
  "is_description_col h =
     (contains (ascii ''description'') h \<or> contains (ascii ''item'') h
      \<or> contains (ascii ''product'') h)"

text \<open>The chain of \<open>if\<close> and \<open>elif\<close> that stores one stripped cell under its column\<close>

definition set_field :: "'d pylib \<Rightarrow> pystr \<Rightarrow> pystr \<Rightarrow> LineItem \<Rightarrow> LineItem" where
  "set_field lib col_name cell item =
     (if is_description_col col_name then item\<lparr>description := Some cell\<rparr>
      else if contains (ascii ''qty'') col_name \<or> contains (ascii ''quantity'') col_name
      then (case float_of_str lib (remove_char comma cell) of
              Inl e \<Rightarrow> item
            | Inr v \<Rightarrow> item\<lparr>quantity := Some v\<rparr>)
      else if contains (ascii ''unit'') col_name \<and> contains (ascii ''price'') col_name
      then item\<lparr>unit_price := Some (parse_amount lib cell)\<rparr>
      else if contains (ascii ''total'') col_name \<or> contains (ascii ''amount'') col_name
      then item\<lparr>line_total := Some (parse_amount lib cell)\<rparr>
      else item)"

text \<open>The loop of \<open>_parse_line_item_row\<close> over \<open>enumerate(row)\<close>\<close>

fun parse_cells ::
  "'d pylib \<Rightarrow> (nat \<times> pystr option) list \<Rightarrow> pystr list \<Rightarrow> LineItem
     \<Rightarrow> pyerror + LineItem" where
  "parse_cells lib [] header item = Inr item"
| "parse_cells lib ((idx, cell) # rest) header item =
     (if \<not> truthy cell \<or> length header \<le> idx then parse_cells lib rest header item
      else (case py_index header idx of
              Inl e \<Rightarrow> Inl e
            | Inr col_name \<Rightarrow>
                parse_cells lib rest header
                  (set_field lib col_name (strip lib (fmt_opt cell)) item)))"

definition parse_line_item_row ::
  "'d pylib \<Rightarrow> pystr option list \<Rightarrow> pystr list \<Rightarrow> pyerror + LineItem" where
  "parse_line_item_row lib row header =
     parse_cells lib (enumerate 0 row) header LineItem_default"









text \<open>
  What the loop of \<open>_parse_line_item_row\<close> computes: the cells that are not empty and
  have a column in the header are stored, in row order, into a fresh line item.
\<close>

definition stored_cells :: "pystr list \<Rightarrow> (nat \<times> pystr option) list \<Rightarrow> (nat \<times> pystr option) list" where
  "stored_cells header cells = filter (\<lambda>(idx, cell). truthy cell \<and> idx < length header) cells"

definition store_cell :: "'d pylib \<Rightarrow> pystr list \<Rightarrow> LineItem \<Rightarrow> nat \<times> pystr option \<Rightarrow> LineItem" where
  "store_cell lib header item ic =
     set_field lib (header ! fst ic) (strip lib (fmt_opt (snd ic))) item"

definition row_item :: "'d pylib \<Rightarrow> pystr list \<Rightarrow> pystr option list \<Rightarrow> LineItem" where
  "row_item lib header row =
     foldl (store_cell lib header) LineItem_default (stored_cells header (enumerate 0 row))"





section \<open>Example values\<close>

definition example_invoice :: Invoice where
  "example_invoice = Invoice_default\<lparr>currency := Some (ascii ''XXX''),
     net_total := Some 100,
     line_items := [LineItem_default\<lparr>line_total := Some 50\<rparr>]\<rparr>"

definition dup_a :: Invoice where
  "dup_a = Invoice_default\<lparr>invoice_number := Some (ascii ''INV-1''),
     seller_name := Some (ascii ''Acme''), invoice_date := Some (ascii ''2024-01-01''),
     source_file := Some (ascii ''a.pdf'')\<rparr>"

definition dup_b :: Invoice where
  "dup_b = dup_a\<lparr>source_file := Some (ascii ''b.pdf'')\<rparr>"

definition untitled_a :: Invoice where
  "untitled_a = dup_a\<lparr>invoice_number := Some []\<rparr>"

definition untitled_b :: Invoice where
  "untitled_b = dup_b\<lparr>invoice_number := Some []\<rparr>"

definition dup_nofile :: Invoice where
  "dup_nofile = dup_a\<lparr>source_file := None\<rparr>"

text \<open>
  The condition of the specification: some invoice of the batch has the same number,
  seller and date, and another source file.
\<close>

definition has_duplicate :: "Invoice \<Rightarrow> Invoice list \<Rightarrow> bool" where
  "has_duplicate invoice batch =
     (\<exists>i\<in>set batch. invoice_number i = invoice_number invoice
        \<and> seller_name i = seller_name invoice \<and> invoice_date i = invoice_date invoice
        \<and> source_file i \<noteq> source_file invoice)"

definition ragged_long :: "pystr option list" where
  "ragged_long = [Some (ascii '' Widget ''), None, Some (ascii ''1,5''), Some (ascii ''7'')]"

definition ragged_short :: "pystr option list" where
  "ragged_short = [Some (ascii ''Bolt'')]"

definition small_header :: "pystr list" where
  "small_header = [ascii ''description'', ascii ''qty'', ascii ''unit price'']"


definition text_usd :: pystr where
  "text_usd = ascii ''USD 100 / '' @ [euro] @ ascii ''92''"

definition text_yen :: pystr where
  "text_yen = ascii ''USDA: '' @ [yen] @ ascii ''5, '' @ [euro] @ ascii ''4''"

definition text_plain :: pystr where
  "text_plain = ascii ''usd 5''"

definition text_chf :: pystr where
  "text_chf = ascii ''CHF 100''"

section \<open>A reference instance of the standard library\<close>

text \<open>
  The theorems below hold for every \<open>pylib\<close>. To evaluate the code on concrete inputs,
  \<open>ref_lib\<close> gives the standard library's behaviour on the inputs of the examples: ASCII
  text and the four currency symbols, plain decimal numbers, and dates written with ASCII
  digits and English month names. It is not a model of the library beyond them (it knows
  no letter or digit outside ASCII, no exponent in a number, no time of day).
\<close>

definition ref_isspace :: "nat \<Rightarrow> bool" where
  "ref_isspace c = (c \<in> set [9, 10, 11, 12, 13, 28, 29, 30, 31, 32, 133, 160, 5760,
                               8232, 8233, 8239, 8287, 12288]
                    \<or> (8192 \<le> c \<and> c \<le> 8202))"

definition ref_isdigit :: "nat \<Rightarrow> bool" where
  "ref_isdigit c = (48 \<le> c \<and> c \<le> 57)"

definition ref_isword :: "nat \<Rightarrow> bool" where
  "ref_isword c = (ref_isdigit c \<or> (65 \<le> c \<and> c \<le> 90) \<or> (97 \<le> c \<and> c \<le> 122) \<or> c = 95)"

definition ref_lower :: "pystr \<Rightarrow> pystr" where
  "ref_lower s = map (\<lambda>c. if 65 \<le> c \<and> c \<le> 90 then c + 32 else c) s"

fun digits_value :: "nat \<Rightarrow> pystr \<Rightarrow> nat option" where
  "digits_value acc [] = Some acc"
| "digits_value acc (c # cs) =
     (if ref_isdigit c then digits_value (10 * acc + (c - 48)) cs else None)"

text \<open>\<open>float(s)\<close> on a decimal number: sign, digits, and a fraction after a point\<close>

definition ref_float :: "pystr \<Rightarrow> pyerror + real" where
  "ref_float s =
     (let t = strip_with ref_isspace s;
          neg = (take 1 t = ascii ''-'');
          body = (if take 1 t = ascii ''-'' \<or> take 1 t = ascii ''+'' then drop 1 t else t);
          ip = takeWhile (\<lambda>c. c \<noteq> 46) body;
          fp = drop 1 (dropWhile (\<lambda>c. c \<noteq> 46) body)
      in if ip = [] \<and> fp = [] then Inl ValueError
         else (case (digits_value 0 ip, digits_value 0 fp) of
                 (Some a, Some b) \<Rightarrow>
                   Inr ((if neg then - 1 else 1) * (real a + real b / 10 ^ length fp))
               | _ \<Rightarrow> Inl ValueError))"

text \<open>\<open>repr\<close> of a float with a short decimal expansion\<close>

fun frac_digits :: "nat \<Rightarrow> real \<Rightarrow> pystr" where
  "frac_digits 0 r = []"
| "frac_digits (Suc n) r =
     (if r = 0 then []
      else (48 + nat \<lfloor>r * 10\<rfloor>) # frac_digits n (r * 10 - of_int \<lfloor>r * 10\<rfloor>))"

definition ref_float_repr :: "real \<Rightarrow> pystr" where
  "ref_float_repr x =
     (let a = \<bar>x\<bar>; r = a - of_int \<lfloor>a\<rfloor>
      in (if x < 0 then ascii ''-'' else []) @ str_nat (nat \<lfloor>a\<rfloor>) @ ascii ''.''
         @ (if r = 0 then ascii ''0'' else frac_digits 17 r))"

text \<open>Dates: year, month and day\<close>

datatype datetime = Datetime nat nat nat

definition is_leap :: "nat \<Rightarrow> bool" where
  "is_leap y = (y mod 4 = 0 \<and> (y mod 100 \<noteq> 0 \<or> y mod 400 = 0))"

definition days_in_month :: "nat \<Rightarrow> nat \<Rightarrow> nat" where
  "days_in_month y m =
     (if m = 2 then (if is_leap y then 29 else 28)
      else if m \<in> set [4, 6, 9, 11] then 30 else 31)"

text \<open>The constructor \<open>datetime(y, m, d)\<close>, which raises \<open>ValueError\<close> out of range\<close>

definition make_date :: "nat \<Rightarrow> nat \<Rightarrow> nat \<Rightarrow> pyerror + datetime" where
  "make_date y m d =
     (if 1 \<le> y \<and> y \<le> 9999 \<and> 1 \<le> m \<and> m \<le> 12 \<and> 1 \<le> d \<and> d \<le> days_in_month y m
      then Inr (Datetime y m d) else Inl ValueError)"

text \<open>
  \<open>strptime\<close>: each directive of the format offers its ways of reading the input, in the
  order in which the regular expression of the library tries them; the first reading of
  the whole format counts, and it has to use up the input.
\<close>

datatype date_part = PYear nat | PMonth nat | PDay nat

definition month_names :: "string list" where
  "month_names = [''january'', ''february'', ''march'', ''april'', ''may'', ''june'',
     ''july'', ''august'', ''september'', ''october'', ''november'', ''december'']"

definition digit_in :: "nat \<Rightarrow> nat \<Rightarrow> nat \<Rightarrow> bool" where
  "digit_in lo hi c = (48 + lo \<le> c \<and> c \<le> 48 + hi)"

text \<open>\<open>%d\<close> is \<open>3[0-1]|[1-2]\d|0[1-9]|[1-9]| [1-9]\<close>\<close>

definition day_readings :: "pystr \<Rightarrow> (date_part \<times> pystr) list" where
  "day_readings inp =
     (case inp of
        a # b # rest \<Rightarrow>
          (if a = 51 \<and> digit_in 0 1 b then [(PDay (30 + (b - 48)), rest)] else [])
          @ (if digit_in 1 2 a \<and> digit_in 0 9 b
             then [(PDay (10 * (a - 48) + (b - 48)), rest)] else [])
          @ (if a = 48 \<and> digit_in 1 9 b then [(PDay (b - 48), rest)] else [])
          @ (if digit_in 1 9 a then [(PDay (a - 48), b # rest)] else [])
          @ (if a = 32 \<and> digit_in 1 9 b then [(PDay (b - 48), rest)] else [])
      | [a] \<Rightarrow> (if digit_in 1 9 a then [(PDay (a - 48), [])] else [])
      | [] \<Rightarrow> [])"

text \<open>\<open>%m\<close> is \<open>1[0-2]|0[1-9]|[1-9]\<close>\<close>

definition month_readings :: "pystr \<Rightarrow> (date_part \<times> pystr) list" where
  "month_readings inp =
     (case inp of
        a # b # rest \<Rightarrow>
          (if a = 49 \<and> digit_in 0 2 b then [(PMonth (10 + (b - 48)), rest)] else [])
          @ (if a = 48 \<and> digit_in 1 9 b then [(PMonth (b - 48), rest)] else [])
          @ (if digit_in 1 9 a then [(PMonth (a - 48), b # rest)] else [])
      | [a] \<Rightarrow> (if digit_in 1 9 a then [(PMonth (a - 48), [])] else [])
      | [] \<Rightarrow> [])"

text \<open>\<open>%Y\<close> is four digits\<close>

definition year_readings :: "pystr \<Rightarrow> (date_part \<times> pystr) list" where
  "year_readings inp =
     (if 4 \<le> length inp
      then (case digits_value 0 (take 4 inp) of
              None \<Rightarrow> []
            | Some y \<Rightarrow> [(PYear y, drop 4 inp)])
      else [])"

text \<open>
  \<open>%B\<close> and \<open>%b\<close>: a month name, or its first three letters, in any case. No name is
  the beginning of another, so at most one is read.
\<close>

definition name_readings :: "pystr list \<Rightarrow> pystr \<Rightarrow> (date_part \<times> pystr) list" where
  "name_readings names inp =
     concat (map (\<lambda>(k, n).
         if is_prefix n (ref_lower (take (length n) inp))
         then [(PMonth (Suc k), drop (length n) inp)] else [])
       (enumerate 0 names))"

definition directive_readings :: "nat \<Rightarrow> pystr \<Rightarrow> (date_part \<times> pystr) list" where
  "directive_readings d inp =
     (if [d] = ascii ''d'' then day_readings inp
      else if [d] = ascii ''m'' then month_readings inp
      else if [d] = ascii ''Y'' then year_readings inp
      else if [d] = ascii ''B'' then name_readings (map ascii month_names) inp
      else if [d] = ascii ''b'' then name_readings (map (ascii \<circ> take 3) month_names) inp
      else [])"

text \<open>White space in the format is \<open>\s+\<close>: the longest run first, at least one\<close>

definition space_readings :: "pystr \<Rightarrow> pystr list" where
  "space_readings inp =
     map (\<lambda>n. drop n inp) (rev [1 ..< Suc (length (takeWhile ref_isspace inp))])"

fun ref_parse :: "pystr \<Rightarrow> pystr \<Rightarrow> date_part list \<Rightarrow> (date_part list \<times> pystr) list" where
  "ref_parse [] inp acc = [(acc, inp)]"
| "ref_parse [f] inp acc =
     (if ref_isspace f then map (\<lambda>rest. (acc, rest)) (space_readings inp)
      else if take 1 (ref_lower inp) = ref_lower [f] then [(acc, drop 1 inp)]
      else [])"
| "ref_parse (f # d # fs) inp acc =
     (if [f] = ascii ''%''
      then concat (map (\<lambda>(p, rest). ref_parse fs rest (acc @ [p])) (directive_readings d inp))
      else if ref_isspace f
      then concat (map (\<lambda>rest. ref_parse (d # fs) rest acc) (space_readings inp))
      else if take 1 (ref_lower inp) = ref_lower [f] then ref_parse (d # fs) (drop 1 inp) acc
      else [])"

text \<open>The fields not read keep their defaults: year 1900, month 1, day 1.\<close>

fun set_parts :: "date_part list \<Rightarrow> nat \<times> nat \<times> nat \<Rightarrow> nat \<times> nat \<times> nat" where
  "set_parts [] ymd = ymd"
| "set_parts (PYear y # ps) (_, m, d) = set_parts ps (y, m, d)"
| "set_parts (PMonth m # ps) (y, _, d) = set_parts ps (y, m, d)"
| "set_parts (PDay d # ps) (y, m, _) = set_parts ps (y, m, d)"

definition ref_strptime :: "pystr \<Rightarrow> pystr \<Rightarrow> pyerror + datetime" where
  "ref_strptime s fmt =
     (case ref_parse fmt s [] of
        (parts, []) # _ \<Rightarrow>
          (case set_parts parts (1900, 1, 1) of (y, m, d) \<Rightarrow> make_date y m d)
      | _ \<Rightarrow> Inl ValueError)"

text \<open>Zero-padded decimal of a given width\<close>

definition pad_nat :: "nat \<Rightarrow> nat \<Rightarrow> pystr" where
  "pad_nat w n = replicate (w - length (str_nat n)) 48 @ str_nat n"

fun ref_strftime_parts :: "nat \<times> nat \<times> nat \<Rightarrow> pystr \<Rightarrow> pystr" where
  "ref_strftime_parts ymd [] = []"
| "ref_strftime_parts ymd [f] = [f]"
| "ref_strftime_parts (y, m, d) (f # c # fs) =
     (if [f, c] = ascii ''%Y'' then pad_nat 4 y @ ref_strftime_parts (y, m, d) fs
      else if [f, c] = ascii ''%m'' then pad_nat 2 m @ ref_strftime_parts (y, m, d) fs
      else if [f, c] = ascii ''%d'' then pad_nat 2 d @ ref_strftime_parts (y, m, d) fs
      else f # ref_strftime_parts (y, m, d) (c # fs))"

fun ref_strftime :: "datetime \<Rightarrow> pystr \<Rightarrow> pyerror + pystr" where
  "ref_strftime (Datetime y m d) fmt = Inr (ref_strftime_parts (y, m, d) fmt)"

text \<open>\<open>fromisoformat\<close> on \<open>YYYY-MM-DD\<close>\<close>

definition ref_fromisoformat :: "pystr \<Rightarrow> pyerror + datetime" where
  "ref_fromisoformat s =
     (if length s = 10 \<and> take 1 (drop 4 s) = ascii ''-'' \<and> take 1 (drop 7 s) = ascii ''-''
      then (case (digits_value 0 (take 4 s), digits_value 0 (take 2 (drop 5 s)),
                  digits_value 0 (drop 8 s)) of
              (Some y, Some m, Some d) \<Rightarrow> make_date y m d
            | _ \<Rightarrow> Inl ValueError)
      else Inl ValueError)"

fun ref_year :: "datetime \<Rightarrow> int" where
  "ref_year (Datetime y m d) = int y"

fun ref_less :: "datetime \<Rightarrow> datetime \<Rightarrow> pyerror + bool" where
  "ref_less (Datetime y m d) (Datetime y' m' d') =
     Inr (y < y' \<or> (y = y' \<and> (m < m' \<or> (m = m' \<and> d < d'))))"

definition ref_lib :: "datetime pylib" where
  "ref_lib = \<lparr>isspace = ref_isspace, isword = ref_isword, lower = ref_lower,
     float_of_str = ref_float, float_repr = ref_float_repr,
     fromisoformat = ref_fromisoformat, strptime = ref_strptime, strftime = ref_strftime,
     dt_year = ref_year, dt_less = ref_less\<rparr>"


definition invoice_125 :: Invoice where
  "invoice_125 = Invoice_default\<lparr>net_total := Some 100, tax_amount := Some 20,
     gross_total := Some 125\<rparr>"

section \<open>Properties\<close>

subsection \<open>Strings\<close>

lemma ascii_eq_iff: "ascii a = ascii b \<longleftrightarrow> a = b"
  unfolding ascii_def by (rule inj_map_eq_map) (rule inj_of_char)

lemma py_split_fst: "fst (py_split c s) = takeWhile (\<lambda>x. x \<noteq> c) s"
  by (induction s) (auto split: prod.splits)

subsection \<open>Routing of findings and validity\<close>

lemma route_findings_eq:
  "route_findings sev es (errs, warns) =
     (if sev = ascii ''warning'' then (errs, warns @ es) else (errs @ es, warns))"
  by (induction es arbitrary: errs warns) auto

lemma apply_rules_eq:
  assumes "\<forall>r\<in>set rules. validate r invoice all_invoices = Inr (findings r)"
  shows "apply_rules rules invoice all_invoices (errs, warns) =
     Inr (errs @ concat (map findings (filter (\<lambda>r. severity r \<noteq> ascii ''warning'') rules)),
          warns @ concat (map findings (filter (\<lambda>r. severity r = ascii ''warning'') rules)))"
  using assms
  by (induction rules arbitrary: errs warns) (auto simp: route_findings_eq)

text \<open>
  C1. When every rule of the validator returns its findings for an invoice (none raises)
  and every rule has one of the two documented severities, \<open>validate_invoice\<close> returns a
  result whose \<open>is_valid\<close> flag is true if and only if the rules of severity \<open>error\<close>
  produced no finding. The errors of the result are the findings of the error rules, in
  rule order, and its warnings those of the warning rules: the findings of a warning rule
  never reach \<open>errors\<close> and so never affect \<open>is_valid\<close>.
\<close>

theorem validate_invoice_is_valid:
  assumes "\<forall>r\<in>set rules. validate r invoice all_invoices = Inr (findings r)"
    and "\<forall>r\<in>set rules. severity r = ascii ''error'' \<or> severity r = ascii ''warning''"
  shows "\<exists>res. validate_invoice rules invoice all_invoices = Inr res
     \<and> (is_valid res \<longleftrightarrow>
          (\<forall>r\<in>set rules. severity r = ascii ''error'' \<longrightarrow> findings r = []))
     \<and> errors res = concat (map findings (filter (\<lambda>r. severity r = ascii ''error'') rules))
     \<and> warnings res =
          concat (map findings (filter (\<lambda>r. severity r = ascii ''warning'') rules))"
proof -
  have sev: "filter (\<lambda>r. severity r \<noteq> ascii ''warning'') rules
           = filter (\<lambda>r. severity r = ascii ''error'') rules"
    using assms(2) by (intro filter_cong) (auto simp: ascii_eq_iff)
  show ?thesis
    by (auto simp: validate_invoice_def apply_rules_eq [OF assms(1)] sev)
qed

lemma example_invoice_line_items_finding:
  "LineItemsTotalRule_validate default_tolerance example_invoice None \<noteq> []"
  by (simp add: LineItemsTotalRule_validate_def example_invoice_def Invoice_default_def
      LineItem_default_def default_tolerance_def line_items_sum_def)

text \<open>
  An invoice whose line items sum to 50 against a net total of 100: the warning rule
  reports it, the duplicate rule (an error rule) reports nothing, and the result is valid.
\<close>

theorem validate_invoice_is_valid_witness:
  "\<exists>res. validate_invoice [LineItemsTotalRule default_tolerance, DuplicateInvoiceRule]
            example_invoice None = Inr res
     \<and> is_valid res \<and> errors res = [] \<and> warnings res \<noteq> []"
  using validate_invoice_is_valid
      [of "[LineItemsTotalRule default_tolerance, DuplicateInvoiceRule]"
      example_invoice None
      "\<lambda>r. case validate r example_invoice None of Inl e \<Rightarrow> [] | Inr es \<Rightarrow> es"]
  by (auto simp: LineItemsTotalRule_def DuplicateInvoiceRule_def
      DuplicateInvoiceRule_validate_def ascii_eq_iff example_invoice_line_items_finding)

subsection \<open>The summary\<close>

lemma count_findings_lookup:
  "count_findings es m k =
     (case m k of
        None \<Rightarrow> if filter (\<lambda>e. count_key e = k) es = [] then None
                 else Some (int (length (filter (\<lambda>e. count_key e = k) es)))
      | Some v \<Rightarrow> Some (v + int (length (filter (\<lambda>e. count_key e = k) es))))"
  by (induction es arbitrary: m) (auto split: option.splits)

lemma count_findings_append:
  "count_findings (xs @ ys) m = count_findings ys (count_findings xs m)"
  by (induction xs arbitrary: m) auto

lemma count_results_eq:
  "count_results rs (ec, wc) =
     (count_findings (concat (map errors rs)) ec,
      count_findings (concat (map warnings rs)) wc)"
  by (induction rs arbitrary: ec wc) (auto simp: count_findings_append)

text \<open>
  C8. For every list of per-invoice results, the summary has \<open>total_invoices\<close> the
  number of results, \<open>valid_invoices\<close> the number of results whose \<open>is_valid\<close> is true
  and \<open>invalid_invoices\<close> their difference. \<open>error_counts\<close> holds, for a key \<open>k\<close>, the
  number of errors of the whole batch whose key is \<open>k\<close>, and has no entry for a key that
  no error has; \<open>warning_counts\<close> likewise for the warnings. The key of a finding is its
  rule, a colon and a space, and its message up to the first period.
\<close>

theorem generate_summary_counts:
  "total_invoices (generate_summary rs) = int (length rs)
   \<and> valid_invoices (generate_summary rs) = int (length (filter is_valid rs))
   \<and> invalid_invoices (generate_summary rs)
       = total_invoices (generate_summary rs) - valid_invoices (generate_summary rs)
   \<and> error_counts (generate_summary rs) k
       = (if filter (\<lambda>e. count_key e = k) (concat (map errors rs)) = [] then None
          else Some (int (length (filter (\<lambda>e. count_key e = k) (concat (map errors rs))))))
   \<and> warning_counts (generate_summary rs) k
       = (if filter (\<lambda>e. count_key e = k) (concat (map warnings rs)) = [] then None
          else Some (int (length (filter (\<lambda>e. count_key e = k) (concat (map warnings rs))))))
   \<and> count_key e
       = rule e @ ascii '': '' @ takeWhile (\<lambda>c. c \<noteq> of_char (CHR ''.'')) (message e)"
  by (simp add: generate_summary_def Let_def count_results_eq count_findings_lookup
      count_key_def py_split_fst)

subsection \<open>Reconciliation of the totals\<close>

lemma format_2f_5: "format_2f 5 = ascii ''5.00''"
  by (simp add: format_2f_def round_half_even_def ascii_def)



lemma invoice_125_message:
  "TotalsMatchRule_validate ref_lib default_tolerance invoice_125 None =
     [\<lparr>rule = ascii ''totals_match'',
       message = ascii
         ''Totals mismatch: 100.0 + 20.0 = 120.0, but gross_total is 125.0 (diff: 5.00)'',
       field = Some (ascii ''gross_total'')\<rparr>]"
  by (simp add: TotalsMatchRule_validate_def invoice_125_def Invoice_default_def
      default_tolerance_def format_2f_5 ref_lib_def ref_float_repr_def ascii_def)

subsection \<open>Reconciliation of the line items\<close>






















subsection \<open>Duplicate detection\<close>

lemma duplicates_empty_iff: "duplicates invoice batch = [] \<longleftrightarrow> \<not> has_duplicate invoice batch"
  by (auto simp: duplicates_def has_duplicate_def filter_empty_conv)

lemma join_opt_Some:
  "\<forall>x\<in>set xs. x \<noteq> None \<Longrightarrow> join_opt sep xs = Inr (join sep (map the xs))"
  by (auto simp: join_opt_def)

lemma DuplicateInvoiceRule_validate_found:
  assumes "truthy (invoice_number invoice)" and "batch \<noteq> []"
    and "\<forall>d\<in>set (duplicates invoice batch). source_file d \<noteq> None"
  shows "validate DuplicateInvoiceRule invoice (Some batch) =
     Inr (if has_duplicate invoice batch
          then [\<lparr>rule = ascii ''no_duplicates'',
                 message = ascii ''Duplicate invoice detected. Same invoice_number (''
                   @ fmt_opt (invoice_number invoice) @ ascii '') from ''
                   @ fmt_opt (seller_name invoice) @ ascii '' on ''
                   @ fmt_opt (invoice_date invoice) @ ascii ''. Duplicates in: ''
                   @ join (ascii '', '')
                       (map (\<lambda>d. the (source_file d)) (duplicates invoice batch)),
                 field = Some (ascii ''invoice_number'')\<rparr>]
          else [])"
proof -
  have "join_opt (ascii '', '') (map source_file (duplicates invoice batch)) =
      Inr (join (ascii '', '') (map (\<lambda>d. the (source_file d)) (duplicates invoice batch)))"
    using assms(3) by (simp add: join_opt_Some comp_def)
  then show ?thesis
    using assms(1,2)
    by (simp add: DuplicateInvoiceRule_def DuplicateInvoiceRule_validate_def
        duplicates_empty_iff)
qed

lemma DuplicateInvoiceRule_validate_skipped:
  "batch = None \<or> batch = Some [] \<or> \<not> truthy (invoice_number invoice)
     \<Longrightarrow> validate DuplicateInvoiceRule invoice batch = Inr []"
  by (auto simp: DuplicateInvoiceRule_def DuplicateInvoiceRule_validate_def split: option.splits)

text \<open>
  C3 (amended). For an invoice whose \<open>invoice_number\<close> is present and not empty and a
  batch that is not empty, when every duplicate of the invoice has a source file: the
  duplicate rule returns exactly one error, on the field \<open>invoice_number\<close>, if some
  invoice of the batch has the same \<open>invoice_number\<close>, \<open>seller_name\<close> and
  \<open>invoice_date\<close> and another \<open>source_file\<close>, and no finding otherwise; the message of
  the error ends with the source files of all these duplicates, in batch order, joined by
  a comma and a space. When \<open>invoice_number\<close> is absent or empty, or when no batch or an
  empty batch is supplied, the rule returns no finding.
\<close>

theorem DuplicateInvoiceRule_validate_duplicates:
  "(truthy (invoice_number invoice) \<and> batch \<noteq> []
      \<and> (\<forall>d\<in>set (duplicates invoice batch). source_file d \<noteq> None) \<longrightarrow>
      validate DuplicateInvoiceRule invoice (Some batch) =
        Inr (if has_duplicate invoice batch
             then [\<lparr>rule = ascii ''no_duplicates'',
                    message = ascii ''Duplicate invoice detected. Same invoice_number (''
                      @ fmt_opt (invoice_number invoice) @ ascii '') from ''
                      @ fmt_opt (seller_name invoice) @ ascii '' on ''
                      @ fmt_opt (invoice_date invoice) @ ascii ''. Duplicates in: ''
                      @ join (ascii '', '')
                          (map (\<lambda>d. the (source_file d)) (duplicates invoice batch)),
                    field = Some (ascii ''invoice_number'')\<rparr>]
             else []))
   \<and> set (duplicates invoice batch) =
        {i \<in> set batch. invoice_number i = invoice_number invoice
           \<and> seller_name i = seller_name invoice \<and> invoice_date i = invoice_date invoice
           \<and> source_file i \<noteq> source_file invoice}
   \<and> (\<not> truthy (invoice_number invoice) \<longrightarrow>
        validate DuplicateInvoiceRule invoice supplied = Inr [])
   \<and> validate DuplicateInvoiceRule invoice None = Inr []
   \<and> validate DuplicateInvoiceRule invoice (Some []) = Inr []
   \<and> severity DuplicateInvoiceRule = ascii ''error''"
proof (intro conjI impI)
  assume "truthy (invoice_number invoice) \<and> batch \<noteq> []
      \<and> (\<forall>d\<in>set (duplicates invoice batch). source_file d \<noteq> None)"
  then show "validate DuplicateInvoiceRule invoice (Some batch) =
        Inr (if has_duplicate invoice batch
             then [\<lparr>rule = ascii ''no_duplicates'',
                    message = ascii ''Duplicate invoice detected. Same invoice_number (''
                      @ fmt_opt (invoice_number invoice) @ ascii '') from ''
                      @ fmt_opt (seller_name invoice) @ ascii '' on ''
                      @ fmt_opt (invoice_date invoice) @ ascii ''. Duplicates in: ''
                      @ join (ascii '', '')
                          (map (\<lambda>d. the (source_file d)) (duplicates invoice batch)),
                    field = Some (ascii ''invoice_number'')\<rparr>]
             else [])"
    using DuplicateInvoiceRule_validate_found by blast
next
  show "set (duplicates invoice batch) =
        {i \<in> set batch. invoice_number i = invoice_number invoice
           \<and> seller_name i = seller_name invoice \<and> invoice_date i = invoice_date invoice
           \<and> source_file i \<noteq> source_file invoice}"
    by (auto simp: duplicates_def)
next
  assume "\<not> truthy (invoice_number invoice)"
  then show "validate DuplicateInvoiceRule invoice supplied = Inr []"
    by (simp add: DuplicateInvoiceRule_validate_skipped)
next
  show "validate DuplicateInvoiceRule invoice None = Inr []"
    by (simp add: DuplicateInvoiceRule_validate_skipped)
next
  show "validate DuplicateInvoiceRule invoice (Some []) = Inr []"
    by (simp add: DuplicateInvoiceRule_validate_skipped)
next
  show "severity DuplicateInvoiceRule = ascii ''error''"
    by (simp add: DuplicateInvoiceRule_def)
qed

text \<open>
  The example of the specification: two invoices \<open>INV-1\<close> of Acme of 2024-01-01 from
  \<open>a.pdf\<close> and \<open>b.pdf\<close> each get one error naming the other file. With an empty
  invoice number nothing is reported.
\<close>

theorem DuplicateInvoiceRule_validate_duplicates_witness:
  "validate DuplicateInvoiceRule dup_a (Some [dup_a, dup_b]) =
     Inr [\<lparr>rule = ascii ''no_duplicates'',
           message = ascii
    ''Duplicate invoice detected. Same invoice_number (INV-1) from Acme on 2024-01-01. Duplicates in: b.pdf'',
           field = Some (ascii ''invoice_number'')\<rparr>]
   \<and> validate DuplicateInvoiceRule dup_b (Some [dup_a, dup_b]) =
     Inr [\<lparr>rule = ascii ''no_duplicates'',
           message = ascii
    ''Duplicate invoice detected. Same invoice_number (INV-1) from Acme on 2024-01-01. Duplicates in: a.pdf'',
           field = Some (ascii ''invoice_number'')\<rparr>]
   \<and> validate DuplicateInvoiceRule untitled_a (Some [untitled_a, untitled_b]) = Inr []"
  using DuplicateInvoiceRule_validate_duplicates [of dup_a "[dup_a, dup_b]"]
    DuplicateInvoiceRule_validate_duplicates [of dup_b "[dup_a, dup_b]"]
    DuplicateInvoiceRule_validate_duplicates
      [of untitled_a "[]" "Some [untitled_a, untitled_b]"]
  by (simp add: dup_a_def dup_b_def untitled_a_def Invoice_default_def duplicates_def
      has_duplicate_def ascii_def)

text \<open>
  The claim as stated fails for an invoice number that is present but empty: the batch
  holds a duplicate from another file, and the rule reports nothing.
\<close>

theorem DuplicateInvoiceRule_empty_number_counterexample:
  "invoice_number untitled_a \<noteq> None
   \<and> has_duplicate untitled_a [untitled_a, untitled_b]
   \<and> validate DuplicateInvoiceRule untitled_a (Some [untitled_a, untitled_b]) = Inr []"
  by (simp add: untitled_a_def untitled_b_def dup_a_def dup_b_def Invoice_default_def
      has_duplicate_def DuplicateInvoiceRule_def DuplicateInvoiceRule_validate_def ascii_def)

text \<open>
  A duplicate without a source file makes the rule raise \<open>TypeError\<close>, from
  \<open>', '.join\<close>.
\<close>

lemma DuplicateInvoiceRule_raises:
  "has_duplicate dup_a [dup_a, dup_nofile]
   \<and> validate DuplicateInvoiceRule dup_a (Some [dup_a, dup_nofile]) = Inl TypeError"
  by (simp add: dup_a_def dup_nofile_def Invoice_default_def has_duplicate_def
      DuplicateInvoiceRule_def DuplicateInvoiceRule_validate_def duplicates_def join_opt_def
      ascii_def)

subsection \<open>Amounts\<close>







subsection \<open>Rows of a line-items table\<close>

lemma parse_cells_fold:
  "parse_cells lib cells header item =
     Inr (foldl (store_cell lib header) item (stored_cells header cells))"
proof (induction cells arbitrary: item)
  case Nil
  show ?case by (simp add: stored_cells_def)
next
  case (Cons ic cells)
  obtain idx cell where ic: "ic = (idx, cell)" by (cases ic)
  show ?case
  proof (cases "truthy cell \<and> idx < length header")
    case True
    then show ?thesis
      by (simp add: ic Cons.IH py_index_def stored_cells_def store_cell_def)
  next
    case False
    then have "parse_cells lib (ic # cells) header item = parse_cells lib cells header item"
      by (auto simp: ic)
    with False show ?thesis
      by (auto simp: ic Cons.IH stored_cells_def)
  qed
qed

text \<open>
  C10. For every row and every header, of any lengths, \<open>_parse_line_item_row\<close> returns a
  line item and raises nothing: the header is only read at the index of a cell that is
  not empty and lies below the length of the header. The item is the fresh line item into
  which exactly these cells were stored, in row order; empty cells and cells at or beyond
  the length of the header are passed over.
\<close>

theorem parse_line_item_row_total:
  "parse_line_item_row lib row header = Inr (row_item lib header row)
   \<and> (\<exists>item. parse_line_item_row lib row header = Inr item)
   \<and> set (stored_cells header (enumerate 0 row))
       = {(idx, cell). idx < length row \<and> cell = row ! idx \<and> truthy cell \<and> idx < length header}"
  by (auto simp: parse_line_item_row_def parse_cells_fold row_item_def stored_cells_def
      in_set_enumerate_eq)


text \<open>
  A row longer than the header, with an empty cell, and a row shorter than the header
\<close>

lemma parse_line_item_row_ragged:
  "parse_line_item_row ref_lib ragged_long small_header =
     Inr \<lparr>description = Some (ascii ''Widget''), quantity = None,
          unit_price = Some 15, line_total = None\<rparr>
   \<and> parse_line_item_row ref_lib ragged_short small_header =
     Inr \<lparr>description = Some (ascii ''Bolt''), quantity = None,
          unit_price = None, line_total = None\<rparr>"
  by (simp add: parse_line_item_row_def ragged_long_def ragged_short_def small_header_def
      LineItem_default_def py_index_def set_field_def is_description_col_def
      parse_amount_def remove_char_def comma_def strip_def strip_with_def ref_lib_def
      ref_isspace_def ref_float_def ref_isdigit_def ascii_def)

subsection \<open>The description gate\<close>
















subsection \<open>Normalisation of dates\<close>

lemma try_formats_Cons:
  "try_formats lib s (f # fs) =
     (case render_with lib s f of Some out \<Rightarrow> Some out | None \<Rightarrow> try_formats lib s fs)"
  by (simp add: render_with_def split: sum.splits)

lemma try_formats_None:
  "\<forall>f\<in>set fs. render_with lib s f = None \<Longrightarrow> try_formats lib s fs = None"
  by (induction fs) (simp_all add: try_formats_Cons del: try_formats.simps(2))

lemma try_formats_first:
  "k < length fs \<Longrightarrow> render_with lib s (fs ! k) = Some out
     \<Longrightarrow> \<forall>f\<in>set (take k fs). render_with lib s f = None
     \<Longrightarrow> try_formats lib s fs = Some out"
proof (induction fs arbitrary: k)
  case Nil
  then show ?case by simp
next
  case (Cons f fs)
  show ?case
  proof (cases k)
    case 0
    with Cons.prems show ?thesis
      by (simp add: try_formats_Cons del: try_formats.simps(2))
  next
    case (Suc n)
    with Cons.prems have "try_formats lib s fs = Some out"
      by (intro Cons.IH [of n]) simp_all
    moreover from Suc Cons.prems have "render_with lib s f = None" by simp
    ultimately show ?thesis
      by (simp add: try_formats_Cons del: try_formats.simps(2))
  qed
qed

text \<open>
  C7 (amended). \<open>_normalize_date\<close> tries seven formats in this order: day/month/year,
  month/day/year, ISO year-month-day, day-month-year with dashes, day.month.year with
  dots, day and full month name and year, day and abbreviated month name and year, each
  on the stripped string. The first format that parses gives the result, which is the
  date printed with \<open>%Y-%m-%d\<close>. When no format parses, the string is returned as it
  was given.
\<close>

theorem normalize_date_first_format:
  "date_formats = map ascii [''%d/%m/%Y'', ''%m/%d/%Y'', ''%Y-%m-%d'', ''%d-%m-%Y'',
      ''%d.%m.%Y'', ''%d %B %Y'', ''%d %b %Y'']
   \<and> (k < length date_formats \<and> render_with lib s (date_formats ! k) = Some out
        \<and> (\<forall>f\<in>set (take k date_formats). render_with lib s f = None)
      \<longrightarrow> normalize_date lib s = out)
   \<and> ((\<forall>f\<in>set date_formats. render_with lib s f = None) \<longrightarrow> normalize_date lib s = s)
   \<and> (render_with lib s f = Some out \<longleftrightarrow>
        (\<exists>dt. strptime lib (strip lib s) f = Inr dt
           \<and> strftime lib dt (ascii ''%Y-%m-%d'') = Inr out))"
proof (intro conjI impI)
  show "date_formats = map ascii [''%d/%m/%Y'', ''%m/%d/%Y'', ''%Y-%m-%d'', ''%d-%m-%Y'',
      ''%d.%m.%Y'', ''%d %B %Y'', ''%d %b %Y'']"
    by (simp add: date_formats_def)
next
  assume "k < length date_formats \<and> render_with lib s (date_formats ! k) = Some out
        \<and> (\<forall>f\<in>set (take k date_formats). render_with lib s f = None)"
  then have "try_formats lib s date_formats = Some out"
    using try_formats_first by blast
  then show "normalize_date lib s = out"
    by (simp add: normalize_date_def)
next
  assume "\<forall>f\<in>set date_formats. render_with lib s f = None"
  then have "try_formats lib s date_formats = None"
    by (rule try_formats_None)
  then show "normalize_date lib s = s"
    by (simp add: normalize_date_def)
next
  show "render_with lib s f = Some out \<longleftrightarrow>
        (\<exists>dt. strptime lib (strip lib s) f = Inr dt
           \<and> strftime lib dt (ascii ''%Y-%m-%d'') = Inr out)"
    by (auto simp: render_with_def split: sum.splits)
qed

text \<open>The reference library on the dates of the examples\<close>

lemmas ref_date_defs = ref_strptime_def ascii_def directive_readings_def day_readings_def
  month_readings_def year_readings_def digit_in_def ref_isdigit_def ref_isspace_def
  ref_lower_def make_date_def days_in_month_def is_leap_def space_readings_def
  name_readings_def month_names_def render_with_def ref_lib_def strip_def strip_with_def
  pad_nat_def date_formats_def

lemma render_slashes:
  "map (render_with ref_lib (ascii ''31/12/2024'')) date_formats =
     [Some (ascii ''2024-12-31''), None, None, None, None, None, None]"
  by (simp add: ref_date_defs)

lemma render_iso:
  "map (render_with ref_lib (ascii ''2024-12-31'')) date_formats =
     [None, None, Some (ascii ''2024-12-31''), None, None, None, None]"
  by (simp add: ref_date_defs)

lemma render_month_name:
  "map (render_with ref_lib (ascii ''31 Dec 2024'')) date_formats =
     [None, None, None, None, None, None, Some (ascii ''2024-12-31'')]"
  by (simp add: ref_date_defs)

lemma render_dashes:
  "map (render_with ref_lib (ascii ''31-12-2024'')) date_formats =
     [None, None, None, Some (ascii ''2024-12-31''), None, None, None]"
  by (simp add: ref_date_defs)

lemma render_no_date:
  "map (render_with ref_lib (ascii ''next week'')) date_formats =
     [None, None, None, None, None, None, None]"
  by (simp add: ref_date_defs)


lemma first_of_map:
  assumes "map g fs = rs" and "k < length rs" and "rs ! k = Some out"
    and "\<forall>r\<in>set (take k rs). r = None"
  shows "k < length fs \<and> g (fs ! k) = Some out \<and> (\<forall>f\<in>set (take k fs). g f = None)"
proof -
  from assms(1,2) have k: "k < length fs" by auto
  from assms(1,3) k have n: "g (fs ! k) = Some out" by auto
  have "take k rs = map g (take k fs)"
    unfolding assms(1) [symmetric] by (rule take_map)
  with assms(4) have "\<forall>f\<in>set (take k fs). g f = None" by simp
  with k n show ?thesis by simp
qed

lemma none_of_map:
  assumes "map g fs = rs" and "\<forall>r\<in>set rs. r = None"
  shows "\<forall>f\<in>set fs. g f = None"
  using assms by auto

text \<open>
  The three dates of the specification all become 2024-12-31, by the first, third and
  seventh format; a string that is no date is returned unchanged.
\<close>

theorem normalize_date_first_format_witness:
  "normalize_date ref_lib (ascii ''31/12/2024'') = ascii ''2024-12-31''
   \<and> normalize_date ref_lib (ascii ''2024-12-31'') = ascii ''2024-12-31''
   \<and> normalize_date ref_lib (ascii ''31 Dec 2024'') = ascii ''2024-12-31''
   \<and> normalize_date ref_lib (ascii ''next week'') = ascii ''next week''"
proof -
  have a: "normalize_date ref_lib (ascii ''31/12/2024'') = ascii ''2024-12-31''"
    using normalize_date_first_format [of 0 ref_lib "ascii ''31/12/2024''" "ascii ''2024-12-31''"]
      first_of_map [OF render_slashes, of 0 "ascii ''2024-12-31''"]
    by simp
  have b: "normalize_date ref_lib (ascii ''2024-12-31'') = ascii ''2024-12-31''"
    using normalize_date_first_format [of 2 ref_lib "ascii ''2024-12-31''" "ascii ''2024-12-31''"]
      first_of_map [OF render_iso, of 2 "ascii ''2024-12-31''"]
    by simp
  have c: "normalize_date ref_lib (ascii ''31 Dec 2024'') = ascii ''2024-12-31''"
    using normalize_date_first_format [of 6 ref_lib "ascii ''31 Dec 2024''" "ascii ''2024-12-31''"]
      first_of_map [OF render_month_name, of 6 "ascii ''2024-12-31''"]
    by simp
  have d: "normalize_date ref_lib (ascii ''next week'') = ascii ''next week''"
    using normalize_date_first_format [of _ ref_lib "ascii ''next week''"]
      none_of_map [OF render_no_date]
    by simp
  from a b c d show ?thesis by simp
qed

text \<open>
  The list of the claim has no day-month-year format with dashes. None of the formats it
  names parses \<open>31-12-2024\<close>, which by the claim would be returned unchanged; the code
  returns 2024-12-31.
\<close>

theorem normalize_date_dashes_counterexample:
  "render_with ref_lib (ascii ''31-12-2024'') (ascii ''%d/%m/%Y'') = None
   \<and> render_with ref_lib (ascii ''31-12-2024'') (ascii ''%m/%d/%Y'') = None
   \<and> render_with ref_lib (ascii ''31-12-2024'') (ascii ''%Y-%m-%d'') = None
   \<and> render_with ref_lib (ascii ''31-12-2024'') (ascii ''%d.%m.%Y'') = None
   \<and> render_with ref_lib (ascii ''31-12-2024'') (ascii ''%d %B %Y'') = None
   \<and> render_with ref_lib (ascii ''31-12-2024'') (ascii ''%d %b %Y'') = None
   \<and> normalize_date ref_lib (ascii ''31-12-2024'') = ascii ''2024-12-31''
   \<and> ascii ''2024-12-31'' \<noteq> ascii ''31-12-2024''"
proof -
  have "try_formats ref_lib (ascii ''31-12-2024'') date_formats = Some (ascii ''2024-12-31'')"
    using first_of_map [OF render_dashes, of 3 "ascii ''2024-12-31''"]
    by (intro try_formats_first [of 3]) simp_all
  then have n: "normalize_date ref_lib (ascii ''31-12-2024'') = ascii ''2024-12-31''"
    by (simp add: normalize_date_def)
  from render_dashes n show ?thesis
    by (simp add: date_formats_def ascii_eq_iff)
qed

subsection \<open>Extraction of the currency\<close>

lemma is_prefix_iff: "is_prefix xs ys \<longleftrightarrow> length xs \<le> length ys \<and> take (length xs) ys = xs"
  by (induction xs ys rule: is_prefix.induct) auto

lemma CURRENCY_CODES_length: "c \<in> set CURRENCY_CODES \<Longrightarrow> length c = 3"
  by (auto simp: CURRENCY_CODES_def ascii_def)

lemma code_at_unique: "code_at lib s i c \<Longrightarrow> code_at lib s i c' \<Longrightarrow> c = c'"
  by (auto simp: code_at_def is_prefix_iff dest!: CURRENCY_CODES_length)

lemma match_code_at_None: "match_code_at lib s i = None \<longleftrightarrow> (\<forall>c. \<not> code_at lib s i c)"
  by (auto simp: match_code_at_def code_at_def find_None_iff)

lemma match_code_at_Some: "match_code_at lib s i = Some c \<longleftrightarrow> code_at lib s i c"
proof
  assume "match_code_at lib s i = Some c"
  then show "code_at lib s i c"
    by (auto simp: match_code_at_def code_at_def find_Some_iff split: if_splits)
next
  assume c: "code_at lib s i c"
  then have "match_code_at lib s i \<noteq> None"
    by (auto simp: match_code_at_None)
  then obtain c' where c': "match_code_at lib s i = Some c'" by auto
  then have "code_at lib s i c'"
    by (auto simp: match_code_at_def code_at_def find_Some_iff split: if_splits)
  with c have "c = c'" by (rule code_at_unique)
  with c' show "match_code_at lib s i = Some c" by simp
qed

lemma first_match_None: "first_match m xs = None \<longleftrightarrow> (\<forall>i\<in>set xs. m i = None)"
  by (induction xs) (auto split: option.splits)

lemma first_match_upt:
  "i < n \<Longrightarrow> m i = Some g \<Longrightarrow> \<forall>j<i. m j = None \<Longrightarrow> k \<le> i
     \<Longrightarrow> first_match m [k ..< n] = Some g"
proof (induction "i - k" arbitrary: k)
  case 0
  then have "k = i" by simp
  with 0 show ?case by (simp add: upt_conv_Cons)
next
  case (Suc d)
  then have "k < i" by simp
  with Suc.prems have "m k = None" by simp
  moreover from Suc \<open>k < i\<close> have "first_match m [Suc k ..< n] = Some g"
    by (intro Suc.hyps) simp_all
  ultimately show ?case
    using \<open>k < i\<close> Suc.prems(1) by (simp add: upt_conv_Cons)
qed

lemma code_at_bound: "code_at lib s i c \<Longrightarrow> i < Suc (length s)"
  by (auto simp: code_at_def is_prefix_iff dest!: CURRENCY_CODES_length)

lemma search_code_Some:
  assumes "code_at lib s i c" and "\<forall>j<i. \<forall>c'. \<not> code_at lib s j c'"
  shows "search_code lib s = Some c"
  unfolding search_code_def
  using assms code_at_bound [OF assms(1)]
  by (intro first_match_upt [of i]) (simp_all add: match_code_at_Some match_code_at_None)

lemma search_code_None:
  "(\<forall>i c. \<not> code_at lib s i c) \<Longrightarrow> search_code lib s = None"
  by (simp add: search_code_def first_match_None match_code_at_None)

lemma map_of_code: "c \<in> set CURRENCY_CODES \<Longrightarrow> map_of currency_map c = None"
  by (auto simp: currency_map_def dest!: CURRENCY_CODES_length)

lemma map_of_symbol:
  "x \<in> set CURRENCY_SYMBOLS \<Longrightarrow> map_of currency_map [x] = Some (symbol_code x)"
  by (auto simp: currency_map_def CURRENCY_SYMBOLS_def symbol_code_def euro_def dollar_def
      pound_def yen_def)

lemma search_symbol_Some:
  assumes "i < length s" and "s ! i \<in> set CURRENCY_SYMBOLS"
    and "\<forall>j<i. s ! j \<notin> set CURRENCY_SYMBOLS"
  shows "search_symbol s = Some [s ! i]"
proof -
  have "List.find (\<lambda>c. c \<in> set CURRENCY_SYMBOLS) s = Some (s ! i)"
    using assms by (auto simp: find_Some_iff)
  then show ?thesis by (simp add: search_symbol_def)
qed

lemma search_symbol_None:
  "\<forall>x\<in>set s. x \<notin> set CURRENCY_SYMBOLS \<Longrightarrow> search_symbol s = None"
  by (simp add: search_symbol_def find_None_iff)

text \<open>
  C5 (amended). When one of the eight codes USD, EUR, GBP, INR, JPY, CNY, CAD, AUD stands
  in the text as a whole word, in upper case, \<open>_extract_currency\<close> returns the code at
  the leftmost such position. When none does and one of the symbols of \<open>CURRENCY_SYMBOLS\<close>
  occurs, it returns the code of the first symbol that occurs: EUR, USD, GBP, JPY for
  the euro, dollar, pound and yen signs. When neither occurs it returns \<open>None\<close>.
\<close>

theorem extract_currency_first_code:
  "(code_at lib text i c \<and> (\<forall>j<i. \<forall>c'. \<not> code_at lib text j c')
      \<longrightarrow> extract_currency lib text = Some c)
   \<and> ((\<forall>k c'. \<not> code_at lib text k c') \<and> text = pre @ x # post
        \<and> x \<in> set CURRENCY_SYMBOLS \<and> (\<forall>y\<in>set pre. y \<notin> set CURRENCY_SYMBOLS)
      \<longrightarrow> extract_currency lib text = Some (symbol_code x))
   \<and> ((\<forall>k c'. \<not> code_at lib text k c') \<and> (\<forall>x\<in>set text. x \<notin> set CURRENCY_SYMBOLS)
      \<longrightarrow> extract_currency lib text = None)
   \<and> symbol_code euro = ascii ''EUR'' \<and> symbol_code dollar = ascii ''USD''
   \<and> symbol_code pound = ascii ''GBP'' \<and> symbol_code yen = ascii ''JPY''
   \<and> CURRENCY_SYMBOLS = [euro, dollar, pound, yen]
   \<and> CURRENCY_CODES = map ascii [''USD'', ''EUR'', ''GBP'', ''INR'', ''JPY'', ''CNY'',
        ''CAD'', ''AUD'']"
proof (intro conjI impI)
  assume a: "code_at lib text i c \<and> (\<forall>j<i. \<forall>c'. \<not> code_at lib text j c')"
  then have "search_code lib text = Some c"
    using search_code_Some [of lib "text" i c] by blast
  moreover from a have "map_of currency_map c = None"
    by (simp add: code_at_def map_of_code)
  ultimately show "extract_currency lib text = Some c"
    by (simp add: extract_currency_def)
next
  assume a: "(\<forall>k c'. \<not> code_at lib text k c') \<and> text = pre @ x # post
        \<and> x \<in> set CURRENCY_SYMBOLS \<and> (\<forall>y\<in>set pre. y \<notin> set CURRENCY_SYMBOLS)"
  then have "\<forall>k c'. \<not> code_at lib text k c'" by (rule conjunct1)
  then have "search_code lib text = None" by (rule search_code_None)
  moreover from a have "search_symbol text = Some [x]"
    using search_symbol_Some [of "length pre" "text"] by (auto simp: nth_append)
  moreover from a have "map_of currency_map [x] = Some (symbol_code x)"
    by (simp add: map_of_symbol)
  ultimately show "extract_currency lib text = Some (symbol_code x)"
    by (simp add: extract_currency_def)
next
  assume a: "(\<forall>k c'. \<not> code_at lib text k c') \<and> (\<forall>x\<in>set text. x \<notin> set CURRENCY_SYMBOLS)"
  then have "search_code lib text = None" by (simp add: search_code_None)
  moreover from a have "search_symbol text = None" by (simp add: search_symbol_None)
  ultimately show "extract_currency lib text = None"
    by (simp add: extract_currency_def)
qed (simp_all add: symbol_code_def euro_def dollar_def pound_def yen_def CURRENCY_SYMBOLS_def
    CURRENCY_CODES_def)


lemma search_code_None_iff: "search_code lib s = None \<longleftrightarrow> (\<forall>i c. \<not> code_at lib s i c)"
proof
  assume n: "search_code lib s = None"
  show "\<forall>i c. \<not> code_at lib s i c"
  proof (intro allI notI)
    fix i c
    assume c: "code_at lib s i c"
    then have "i < Suc (length s)" by (rule code_at_bound)
    then have "i \<in> set [0 ..< Suc (length s)]" by (simp del: upt_Suc)
    moreover from n have "\<forall>j\<in>set [0 ..< Suc (length s)]. match_code_at lib s j = None"
      by (simp only: search_code_def first_match_None)
    ultimately have "match_code_at lib s i = None" by blast
    with c show False by (simp add: match_code_at_None)
  qed
next
  assume "\<forall>i c. \<not> code_at lib s i c"
  then show "search_code lib s = None" by (rule search_code_None)
qed

text \<open>The reference library on the texts of the examples\<close>

lemmas ref_currency_defs = search_code_def match_code_at_def word_boundary_def ref_lib_def
  ref_isword_def ref_isdigit_def CURRENCY_CODES_def CURRENCY_SYMBOLS_def euro_def dollar_def
  pound_def yen_def ascii_def

lemma text_usd_code: "match_code_at ref_lib text_usd 0 = Some (ascii ''USD'')"
  by (simp add: ref_currency_defs text_usd_def)

lemma text_yen_no_code: "search_code ref_lib text_yen = None"
  by (simp add: ref_currency_defs text_yen_def)

lemma text_plain_no_code: "search_code ref_lib text_plain = None"
  by (simp add: ref_currency_defs text_plain_def)

lemma text_chf_no_code: "search_code ref_lib text_chf = None"
  by (simp add: ref_currency_defs text_chf_def)

text \<open>
  A text with the word USD and a euro sign gives USD; a text with USDA, a yen sign and
  then a euro sign gives JPY; a text with \<open>usd\<close> in lower case gives nothing.
\<close>

theorem extract_currency_first_code_witness:
  "extract_currency ref_lib text_usd = Some (ascii ''USD'')
   \<and> extract_currency ref_lib text_yen = Some (ascii ''JPY'')
   \<and> extract_currency ref_lib text_plain = None"
proof -
  have a: "extract_currency ref_lib text_usd = Some (ascii ''USD'')"
    using extract_currency_first_code [of ref_lib text_usd 0 "ascii ''USD''"]
      text_usd_code
    by (simp add: match_code_at_Some)
  have b: "extract_currency ref_lib text_yen = Some (ascii ''JPY'')"
    using extract_currency_first_code [of ref_lib text_yen _ _ "ascii ''USDA: ''" yen
        "ascii ''5, '' @ [euro] @ ascii ''4''"]
      text_yen_no_code
    by (simp add: search_code_None_iff text_yen_def CURRENCY_SYMBOLS_def euro_def dollar_def
        pound_def yen_def ascii_def)
  have c: "extract_currency ref_lib text_plain = None"
    using extract_currency_first_code [of ref_lib text_plain] text_plain_no_code
    by (simp add: search_code_None_iff text_plain_def CURRENCY_SYMBOLS_def euro_def
        dollar_def pound_def yen_def ascii_def)
  from a b c show ?thesis by simp
qed

text \<open>
  CHF is a currency code, one that \<open>VALID_CURRENCIES\<close> accepts, and it appears in the
  text \<open>CHF 100\<close>; the pattern does not list it, and no currency is extracted.
\<close>

theorem extract_currency_chf_counterexample:
  "ascii ''CHF'' \<in> VALID_CURRENCIES
   \<and> contains (ascii ''CHF'') text_chf
   \<and> extract_currency ref_lib text_chf = None"
proof -
  have "search_symbol text_chf = None"
    by (simp add: search_symbol_def text_chf_def CURRENCY_SYMBOLS_def euro_def dollar_def
        pound_def yen_def ascii_def)
  then have "extract_currency ref_lib text_chf = None"
    by (simp add: extract_currency_def text_chf_no_code)
  moreover have "ascii ''CHF'' \<in> VALID_CURRENCIES"
    by (simp add: VALID_CURRENCIES_def)
  moreover have "contains (ascii ''CHF'') text_chf"
    by (simp add: text_chf_def ascii_def)
  ultimately show ?thesis by simp
qed

end
